theory Spec2Isabelle
  imports Main "HOL-Library.AList"
begin

section \<open>Values exchanged with the backend\<close>

text \<open>
  The proxy of \<^verbatim>\<open>hosting-llm-ec2/app.py\<close> receives and produces JSON documents.
  A Python \<^verbatim>\<open>dict\<close> is an association list in insertion order whose keys are
  distinct; assigning \<^verbatim>\<open>d[k] = v\<close> is \<^const>\<open>AList.update\<close>, which replaces the
  value of an existing key in place and appends a new key at the end, as Python does.
  A number stands for itself as an integer: numbers only pass through the proxy, which
  never inspects or computes on them.
\<close>

datatype json =
    JNull
  | JBool bool
  | JNum int
  | JStr string
  | JList "json list"
  | JObj "(string \<times> json) list"

text \<open>
  Truthiness of an optional string, list or dict, as Python's \<^verbatim>\<open>if x:\<close> decides it:
  \<^verbatim>\<open>None\<close> and the empty value are false, everything else is true.
\<close>

definition truthy :: "'a list option \<Rightarrow> bool" where
  "truthy v = (case v of None \<Rightarrow> False | Some xs \<Rightarrow> xs \<noteq> [])"

text \<open>Decimal rendering of an integer, as an f-string renders a status code.\<close>

fun str_nat :: "nat \<Rightarrow> string" where
  "str_nat n =
     (if n < 10 then [char_of (48 + n)]
      else str_nat (n div 10) @ [char_of (48 + n mod 10)])"

declare str_nat.simps [simp del]

definition str_int :: "int \<Rightarrow> string" where
  "str_int i = (if i < 0 then ''-'' @ str_nat (nat (- i)) else str_nat (nat i))"

section \<open>Exceptions\<close>

text \<open>
  The exceptions the handlers tell apart. \<^verbatim>\<open>httpx.TimeoutException\<close> is a subclass of
  \<^verbatim>\<open>httpx.RequestError\<close>; \<^verbatim>\<open>fastapi.HTTPException\<close> carries a status code and a
  detail and is a subclass of \<^verbatim>\<open>Exception\<close>, not of the httpx classes. Every
  other exception is \<open>Exception s\<close>, where \<open>s\<close> is what \<^verbatim>\<open>str(e)\<close> gives.
\<close>

datatype exn =
    TimeoutException string
  | RequestError string
  | HTTPException int string
  | Exception string

text \<open>\<^verbatim>\<open>isinstance\<close> tests, following the class hierarchy.\<close>

fun is_TimeoutException :: "exn \<Rightarrow> bool" where
  "is_TimeoutException (TimeoutException _) = True"
| "is_TimeoutException _ = False"

fun is_RequestError :: "exn \<Rightarrow> bool" where
  "is_RequestError (TimeoutException _) = True"
| "is_RequestError (RequestError _) = True"
| "is_RequestError _ = False"

fun is_HTTPException :: "exn \<Rightarrow> bool" where
  "is_HTTPException (HTTPException _ _) = True"
| "is_HTTPException _ = False"

text \<open>
  \<^verbatim>\<open>str(e)\<close>. For an \<^verbatim>\<open>HTTPException\<close> Starlette renders
  \<^verbatim>\<open>f"{status_code}: {detail}"\<close>.
\<close>

fun str_exn :: "exn \<Rightarrow> string" where
  "str_exn (TimeoutException s) = s"
| "str_exn (RequestError s) = s"
| "str_exn (HTTPException code detail) = str_int code @ '': '' @ detail"
| "str_exn (Exception s) = s"

section \<open>Pydantic models\<close>

text \<open>
  \<^verbatim>\<open>ToolCall.function\<close> is a \<^verbatim>\<open>Dict[str, Any]\<close>; the field is called
  \<open>tc_function\<close> here because \<^verbatim>\<open>function\<close> is a keyword of the theory language.
\<close>

record ToolCall =
  tc_function :: "(string \<times> json) list"

record ChatMessage =
  role :: string
  content :: "string option"
  tool_calls :: "ToolCall list option"

text \<open>
  \<^verbatim>\<open>ChatMessage.__init__\<close>: \<^verbatim>\<open>super().__init__(**data)\<close> stores the validated
  fields, then an empty content is supplied when neither field is truthy. The arguments
  are the field values after pydantic's validation (an absent optional field is
  \<open>None\<close>).
\<close>

definition ChatMessage_init ::
  "string \<Rightarrow> string option \<Rightarrow> ToolCall list option \<Rightarrow> ChatMessage" where
  "ChatMessage_init r c t =
     (let self = \<lparr>role = r, content = c, tool_calls = t\<rparr>
      in if \<not> truthy (content self) \<and> \<not> truthy (tool_calls self)
         then self\<lparr>content := Some ''''\<rparr>
         else self)"

record ChatRequest =
  messages :: "ChatMessage list"
  model :: string
  stream :: "bool option"
  options :: "(string \<times> json) list option"
  tools :: "(string \<times> json) list list option"
  keep_alive :: "string option"

record HealthResponse =
  status :: string
  timestamp :: string
  ollama_status :: string
  available_models :: "string list"

section \<open>Configuration\<close>

definition OLLAMA_BASE_URL :: string where
  "OLLAMA_BASE_URL = ''http://localhost:11434''"

definition DEFAULT_MODEL :: string where
  "DEFAULT_MODEL = ''llama3.1:8b''"

section \<open>The message reshaper\<close>

text \<open>
  The loop of \<^verbatim>\<open>format_message_for_ollama\<close> that appends
  \<^verbatim>\<open>{"function": tool_call.function}\<close> for each tool call to the list started
  empty.
\<close>

fun tool_calls_loop :: "ToolCall list \<Rightarrow> json list \<Rightarrow> json list" where
  "tool_calls_loop [] acc = acc"
| "tool_calls_loop (tool_call # rest) acc =
     tool_calls_loop rest (acc @ [JObj [(''function'', JObj (tc_function tool_call))]])"

definition format_message_for_ollama :: "ChatMessage \<Rightarrow> (string \<times> json) list" where
  "format_message_for_ollama message =
     (let ollama_message = [(''role'', JStr (role message))];
          ollama_message =
            (case content message of
               Some c \<Rightarrow>
                 if c \<noteq> [] then AList.update ''content'' (JStr c) ollama_message
                 else ollama_message
             | None \<Rightarrow> ollama_message);
          ollama_message =
            (case tool_calls message of
               Some tcs \<Rightarrow>
                 if tcs \<noteq> []
                 then AList.update ''tool_calls'' (JList (tool_calls_loop tcs [])) ollama_message
                 else ollama_message
             | None \<Rightarrow> ollama_message)
      in if \<not> truthy (content message) \<and> \<not> truthy (tool_calls message)
         then AList.update ''content'' (JStr '''') ollama_message
         else ollama_message)"

section \<open>The HTTP client and the backend\<close>

text \<open>
  What the proxy reads of an \<^verbatim>\<open>httpx.Response\<close>: the status code,
  \<^verbatim>\<open>response.text\<close> (here \<open>body_text\<close>), the outcome of
  \<^verbatim>\<open>response.json()\<close>, which raises on a body that is not JSON, and the lines
  that \<^verbatim>\<open>response.aiter_lines()\<close> yields. The response was read whole by
  \<^verbatim>\<open>http_client.post\<close>, so iterating its lines cannot fail.
\<close>

record response =
  status_code :: int
  body_text :: string
  body_json :: "exn + json"
  body_lines :: "string list"

text \<open>
  The backend seen through the shared \<^verbatim>\<open>httpx.AsyncClient\<close>: a request either
  raises or returns a response. Every call uses the client's timeout
  \<^verbatim>\<open>REQUEST_TIMEOUT\<close>; running out of it is the outcome \<open>Inl (TimeoutException s)\<close>.
\<close>

record http_client =
  http_get :: "string \<Rightarrow> exn + response"
  http_post :: "string \<Rightarrow> json \<Rightarrow> exn + response"

text \<open>
  The chat endpoint threads a log of the POST requests it has issued, so that the number
  of backend calls a request causes can be stated.
\<close>

type_synonym call = "string \<times> json"

definition post ::
  "http_client \<Rightarrow> string \<Rightarrow> json \<Rightarrow> call list \<Rightarrow> (exn + response) \<times> call list" where
  "post hc url body log = (http_post hc url body, log @ [(url, body)])"

section \<open>The health checker\<close>

text \<open>\<^verbatim>\<open>d[k]\<close> on a dict raises \<^verbatim>\<open>KeyError\<close> on a missing key.\<close>

definition dict_getitem :: "(string \<times> json) list \<Rightarrow> string \<Rightarrow> exn + json" where
  "dict_getitem d k =
     (case map_of d k of
        Some v \<Rightarrow> Inr v
      | None \<Rightarrow> Inl (Exception ([CHR 0x27] @ k @ [CHR 0x27])))"

text \<open>\<^verbatim>\<open>models_data.get("models", [])\<close>: only a dict has \<^verbatim>\<open>get\<close>.\<close>

fun get_models :: "json \<Rightarrow> exn + json" where
  "get_models (JObj d) =
     Inr (case map_of d ''models'' of Some v \<Rightarrow> v | None \<Rightarrow> JList [])"
| "get_models _ = Inl (Exception ''AttributeError'')"

text \<open>
  What a \<^verbatim>\<open>for\<close> iterates over: the elements of a list, the keys of a dict, the
  characters of a string; anything else is not iterable.
\<close>

fun py_iter :: "json \<Rightarrow> exn + json list" where
  "py_iter (JList xs) = Inr xs"
| "py_iter (JObj d) = Inr (map (\<lambda>kv. JStr (fst kv)) d)"
| "py_iter (JStr s) = Inr (map (\<lambda>c. JStr [c]) s)"
| "py_iter _ = Inl (Exception ''TypeError'')"

text \<open>\<^verbatim>\<open>model["name"]\<close>: only a dict can be subscripted by a string.\<close>

fun getitem_name :: "json \<Rightarrow> exn + json" where
  "getitem_name (JObj d) = dict_getitem d ''name''"
| "getitem_name _ = Inl (Exception ''TypeError'')"

text \<open>The list comprehension \<^verbatim>\<open>[model["name"] for model in ...]\<close>; \<open>entry\<close> is its \<^verbatim>\<open>model\<close>.\<close>

fun names_loop :: "json list \<Rightarrow> exn + json list" where
  "names_loop [] = Inr []"
| "names_loop (entry # rest) =
     (case getitem_name entry of
        Inl e \<Rightarrow> Inl e
      | Inr name \<Rightarrow>
          (case names_loop rest of
             Inl e \<Rightarrow> Inl e
           | Inr names \<Rightarrow> Inr (name # names)))"

text \<open>The body of the \<^verbatim>\<open>try\<close> of \<^verbatim>\<open>check_ollama_health\<close>.\<close>

definition check_ollama_health_try :: "http_client \<Rightarrow> exn + (string \<times> json) list" where
  "check_ollama_health_try hc =
     (case http_get hc (OLLAMA_BASE_URL @ ''/api/tags'') of
        Inl e \<Rightarrow> Inl e
      | Inr response \<Rightarrow>
          if status_code response = 200 then
            (case body_json response of
               Inl e \<Rightarrow> Inl e
             | Inr models_data \<Rightarrow>
                 (case get_models models_data of
                    Inl e \<Rightarrow> Inl e
                  | Inr entries \<Rightarrow>
                      (case py_iter entries of
                         Inl e \<Rightarrow> Inl e
                       | Inr ms \<Rightarrow>
                           (case names_loop ms of
                              Inl e \<Rightarrow> Inl e
                            | Inr models \<Rightarrow>
                                Inr [(''status'', JStr ''healthy''),
                                     (''models'', JList models)]))))
          else Inr [(''status'', JStr ''unhealthy''), (''models'', JList [])])"

text \<open>
  \<^verbatim>\<open>check_ollama_health\<close>: the handler \<^verbatim>\<open>except Exception\<close> catches every
  exception of the body, logs it and returns the unhealthy report.
\<close>

definition check_ollama_health :: "http_client \<Rightarrow> exn + (string \<times> json) list" where
  "check_ollama_health hc =
     (case check_ollama_health_try hc of
        Inr report \<Rightarrow> Inr report
      | Inl e \<Rightarrow> Inr [(''status'', JStr ''unhealthy''), (''models'', JList [])])"

text \<open>
  Pydantic's validation of the fields of \<^verbatim>\<open>HealthResponse\<close>. A string is accepted
  as it is. What happens to a value that is not a string depends on the pydantic version
  (strict rejection or coercion), so it is the parameter \<open>coerce\<close>.
\<close>

definition validate_str :: "(json \<Rightarrow> string option) \<Rightarrow> json \<Rightarrow> string option" where
  "validate_str coerce v = (case v of JStr s \<Rightarrow> Some s | _ \<Rightarrow> coerce v)"

fun validate_str_list :: "(json \<Rightarrow> string option) \<Rightarrow> json list \<Rightarrow> string list option" where
  "validate_str_list coerce [] = Some []"
| "validate_str_list coerce (v # vs) =
     (case validate_str coerce v of
        None \<Rightarrow> None
      | Some s \<Rightarrow>
          (case validate_str_list coerce vs of
             None \<Rightarrow> None
           | Some ss \<Rightarrow> Some (s # ss)))"

definition HealthResponse_init ::
  "(json \<Rightarrow> string option) \<Rightarrow> json \<Rightarrow> json \<Rightarrow> json \<Rightarrow> json \<Rightarrow> exn + HealthResponse" where
  "HealthResponse_init coerce st ts os ms =
     (case (validate_str coerce st, validate_str coerce ts, validate_str coerce os,
            case ms of JList xs \<Rightarrow> validate_str_list coerce xs | _ \<Rightarrow> None) of
        (Some st', Some ts', Some os', Some ms') \<Rightarrow>
          Inr \<lparr>status = st', timestamp = ts', ollama_status = os', available_models = ms'\<rparr>
      | _ \<Rightarrow> Inl (Exception ''ValidationError''))"

text \<open>
  The endpoint \<^verbatim>\<open>/health\<close>. \<open>now\<close> is \<^verbatim>\<open>datetime.utcnow().isoformat()\<close>.
\<close>

definition health_check ::
  "(json \<Rightarrow> string option) \<Rightarrow> string \<Rightarrow> http_client \<Rightarrow> exn + HealthResponse" where
  "health_check coerce now hc =
     (case check_ollama_health hc of
        Inl e \<Rightarrow> Inl e
      | Inr ollama_health \<Rightarrow>
          (case dict_getitem ollama_health ''status'' of
             Inl e \<Rightarrow> Inl e
           | Inr s \<Rightarrow>
               (case dict_getitem ollama_health ''models'' of
                  Inl e \<Rightarrow> Inl e
                | Inr ms \<Rightarrow>
                    HealthResponse_init coerce
                      (JStr (if s = JStr ''healthy'' then ''healthy'' else ''degraded''))
                      (JStr now) s ms)))"

section \<open>The chat forwarder\<close>

text \<open>The loop that reshapes every message and appends it to \<^verbatim>\<open>ollama_messages\<close>.\<close>

fun ollama_messages :: "ChatMessage list \<Rightarrow> json list \<Rightarrow> json list" where
  "ollama_messages [] acc = acc"
| "ollama_messages (message # rest) acc =
     ollama_messages rest (acc @ [JObj (format_message_for_ollama message)])"

text \<open>
  The backend request that \<^verbatim>\<open>chat_completion\<close> builds: three keys always, then each
  optional parameter if it is truthy. \<^verbatim>\<open>request.stream or False\<close> is true only for
  \<^verbatim>\<open>True\<close>.
\<close>

definition ollama_request :: "ChatRequest \<Rightarrow> (string \<times> json) list" where
  "ollama_request request =
     (let rq = [(''model'', JStr (model request)),
                (''messages'', JList (ollama_messages (messages request) [])),
                (''stream'', JBool (case stream request of Some b \<Rightarrow> b | None \<Rightarrow> False))];
          rq = (case options request of
                  Some d \<Rightarrow> if d \<noteq> [] then AList.update ''options'' (JObj d) rq else rq
                | None \<Rightarrow> rq);
          rq = (case tools request of
                  Some ts \<Rightarrow>
                    if ts \<noteq> [] then AList.update ''tools'' (JList (map JObj ts)) rq else rq
                | None \<Rightarrow> rq);
          rq = (case keep_alive request of
                  Some k \<Rightarrow> if k \<noteq> [] then AList.update ''keep_alive'' (JStr k) rq else rq
                | None \<Rightarrow> rq)
      in rq)"

text \<open>
  The generator \<^verbatim>\<open>stream_response\<close>: each line that is not empty is yielded with a
  newline after it; an empty line yields nothing.
\<close>

fun stream_response :: "string list \<Rightarrow> string list" where
  "stream_response [] = []"
| "stream_response (chunk # rest) =
     (if chunk \<noteq> [] then (chunk @ [CHR 0x0A]) # stream_response rest
      else stream_response rest)"

text \<open>What the endpoint returns: a streaming response with its media type, or a JSON body.\<close>

datatype chat_result =
    StreamingResponse "string list" string
  | JSONBody json

text \<open>
  The body of the \<^verbatim>\<open>try\<close> of \<^verbatim>\<open>chat_completion\<close>. The log messages
  and the measurement of the processing time do not change what the endpoint returns
  and are left out. A response is treated as a failure when its status is not 200.
\<close>

definition chat_completion_try ::
  "http_client \<Rightarrow> ChatRequest \<Rightarrow> call list \<Rightarrow> (exn + chat_result) \<times> call list" where
  "chat_completion_try hc request log =
     (case post hc (OLLAMA_BASE_URL @ ''/api/chat'') (JObj (ollama_request request)) log of
        (Inl e, log') \<Rightarrow> (Inl e, log')
      | (Inr response, log') \<Rightarrow>
          if status_code response \<noteq> 200 then
            (Inl (HTTPException (status_code response)
                    (''Ollama request failed: '' @ body_text response)), log')
          else if stream request = Some True then
            (Inr (StreamingResponse (stream_response (body_lines response))
                    ''application/x-ndjson''), log')
          else
            (case body_json response of
               Inl e \<Rightarrow> (Inl e, log')
             | Inr ollama_response \<Rightarrow> (Inr (JSONBody ollama_response), log')))"

text \<open>
  The three \<^verbatim>\<open>except\<close> clauses of \<^verbatim>\<open>chat_completion\<close>, tried in the order of
  the source: \<^verbatim>\<open>httpx.TimeoutException\<close>, \<^verbatim>\<open>httpx.RequestError\<close>,
  \<^verbatim>\<open>Exception\<close>.
\<close>

definition chat_completion_except :: "exn \<Rightarrow> exn" where
  "chat_completion_except e =
     (if is_TimeoutException e then
        HTTPException 504 ''Request timeout - the model is taking too long to respond''
      else if is_RequestError e then
        HTTPException 503 ''Unable to connect to Ollama service''
      else
        HTTPException 500 (''Internal server error: '' @ str_exn e))"

definition chat_completion ::
  "http_client \<Rightarrow> ChatRequest \<Rightarrow> call list \<Rightarrow> (exn + chat_result) \<times> call list" where
  "chat_completion hc request log =
     (case chat_completion_try hc request log of
        (Inr result, log') \<Rightarrow> (Inr result, log')
      | (Inl e, log') \<Rightarrow> (Inl (chat_completion_except e), log'))"

section \<open>Model information\<close>

text \<open>The body of the \<^verbatim>\<open>try\<close> of \<^verbatim>\<open>get_model_info\<close>.\<close>

definition get_model_info_try :: "http_client \<Rightarrow> string \<Rightarrow> exn + json" where
  "get_model_info_try hc model_name =
     (case http_post hc (OLLAMA_BASE_URL @ ''/api/show'') (JObj [(''name'', JStr model_name)]) of
        Inl e \<Rightarrow> Inl e
      | Inr response \<Rightarrow>
          if status_code response = 200 then body_json response
          else if status_code response = 404 then
            Inl (HTTPException 404
                   (''Model '' @ [CHR 0x27] @ model_name @ [CHR 0x27] @ '' not found''))
          else
            Inl (HTTPException 500
                   (''Failed to get model info: '' @ str_int (status_code response))))"

text \<open>
  \<^verbatim>\<open>get_model_info\<close>: an \<^verbatim>\<open>HTTPException\<close> is raised again as it is, any other
  exception becomes a 500 with \<^verbatim>\<open>str(e)\<close> as its detail.
\<close>

definition get_model_info :: "http_client \<Rightarrow> string \<Rightarrow> exn + json" where
  "get_model_info hc model_name =
     (case get_model_info_try hc model_name of
        Inr info \<Rightarrow> Inr info
      | Inl e \<Rightarrow>
          if is_HTTPException e then Inl e
          else Inl (HTTPException 500 (str_exn e)))"

section \<open>Example inputs\<close>

text \<open>Concrete messages, requests and backends on which the properties below are run.\<close>

definition msg_empty :: ChatMessage where
  "msg_empty = \<lparr>role = ''user'', content = None, tool_calls = None\<rparr>"

definition call_calculator :: ToolCall where
  "call_calculator =
     \<lparr>tc_function = [(''name'', JStr ''calculator''),
                     (''arguments'', JObj [(''expression'', JStr ''2+2'')])]\<rparr>"

definition msg_tool :: ChatMessage where
  "msg_tool = \<lparr>role = ''assistant'', content = Some '''', tool_calls = Some [call_calculator]\<rparr>"

definition msg_hello :: ChatMessage where
  "msg_hello = \<lparr>role = ''user'', content = Some ''What is 2+2?'', tool_calls = None\<rparr>"

definition request_plain :: ChatRequest where
  "request_plain =
     \<lparr>messages = [msg_hello], model = DEFAULT_MODEL, stream = None,
      options = None, tools = None, keep_alive = None\<rparr>"

definition request_stream :: ChatRequest where
  "request_stream =
     \<lparr>messages = [msg_hello], model = DEFAULT_MODEL, stream = Some True,
      options = None, tools = None, keep_alive = None\<rparr>"

text \<open>A backend answer 404 whose body is plain text.\<close>

definition response_not_found :: response where
  "response_not_found =
     \<lparr>status_code = 404, body_text = ''model not found'',
      body_json = Inl (Exception ''Expecting value''),
      body_lines = [''model not found'']\<rparr>"

text \<open>A backend answer 503 with an empty body.\<close>

definition response_unavailable :: response where
  "response_unavailable =
     \<lparr>status_code = 503, body_text = '''',
      body_json = Inl (Exception ''Expecting value''),
      body_lines = []\<rparr>"

text \<open>
  A streamed answer of three lines, the second of them empty: the body is
  \<^verbatim>\<open>{}\<close>, newline, newline, \<^verbatim>\<open>[]\<close>, newline.
\<close>

definition response_lines :: response where
  "response_lines =
     \<lparr>status_code = 200,
      body_text = ''{}'' @ [CHR 0x0A, CHR 0x0A] @ ''[]'' @ [CHR 0x0A],
      body_json = Inl (Exception ''Extra data''),
      body_lines = [''{}'', '''', ''[]'']\<rparr>"

text \<open>An answer 200 whose body is not JSON.\<close>

definition response_not_json :: response where
  "response_not_json =
     \<lparr>status_code = 200, body_text = ''oops'',
      body_json = Inl (Exception ''Expecting value''),
      body_lines = [''oops'']\<rparr>"

text \<open>The answer of \<^verbatim>\<open>/api/tags\<close> of a backend that serves one model.\<close>

definition response_tags :: response where
  "response_tags =
     \<lparr>status_code = 200, body_text = ''(one model)'',
      body_json = Inr (JObj [(''models'', JList [JObj [(''name'', JStr ''llama3.1:8b'')]])]),
      body_lines = [''(one model)'']\<rparr>"


text \<open>A backend that answers every request with \<open>r\<close>, and one whose every request raises \<open>e\<close>.\<close>

definition backend_returning :: "response \<Rightarrow> http_client" where
  "backend_returning r = \<lparr>http_get = (\<lambda>url. Inr r), http_post = (\<lambda>url body. Inr r)\<rparr>"

definition backend_raising :: "exn \<Rightarrow> http_client" where
  "backend_raising e = \<lparr>http_get = (\<lambda>url. Inl e), http_post = (\<lambda>url body. Inl e)\<rparr>"

text \<open>
  Pydantic as its version 2 validates a \<^verbatim>\<open>str\<close> field: a value that is not a
  string is rejected.
\<close>

definition strict :: "json \<Rightarrow> string option" where
  "strict v = None"

section \<open>Properties of the message model and the reshaper\<close>

lemma tool_calls_loop_map:
  "tool_calls_loop tcs acc =
     acc @ map (\<lambda>tc. JObj [(''function'', JObj (tc_function tc))]) tcs"
  by (induction tcs arbitrary: acc) simp_all

text \<open>The reshaped message, written out as the concatenation of the entries it sets.\<close>

lemma format_message_for_ollama_eq:
  "format_message_for_ollama m =
     [(''role'', JStr (role m))]
     @ (case content m of
          Some c \<Rightarrow> if c \<noteq> [] then [(''content'', JStr c)] else []
        | None \<Rightarrow> [])
     @ (case tool_calls m of
          Some tcs \<Rightarrow>
            if tcs \<noteq> []
            then [(''tool_calls'',
                   JList (map (\<lambda>tc. JObj [(''function'', JObj (tc_function tc))]) tcs))]
            else []
        | None \<Rightarrow> [])
     @ (if \<not> truthy (content m) \<and> \<not> truthy (tool_calls m)
        then [(''content'', JStr '''')] else [])"
  by (simp add: format_message_for_ollama_def truthy_def tool_calls_loop_map
      split: option.splits)

lemma format_message_for_ollama_keys:
  "map fst (format_message_for_ollama m) =
     [''role'']
     @ (if truthy (content m) then [''content''] else [])
     @ (if truthy (tool_calls m) then [''tool_calls''] else [])
     @ (if \<not> truthy (content m) \<and> \<not> truthy (tool_calls m) then [''content''] else [])"
  by (cases "content m"; cases "tool_calls m")
    (simp_all add: format_message_for_ollama_eq truthy_def)

lemma format_message_for_ollama_empty:
  "\<not> truthy (content m) \<Longrightarrow> \<not> truthy (tool_calls m) \<Longrightarrow>
   format_message_for_ollama m = [(''role'', JStr (role m)), (''content'', JStr '''')]"
  by (cases "content m"; cases "tool_calls m")
    (simp_all add: format_message_for_ollama_eq truthy_def)

text \<open>
  Claim C1. For every message, whether or not it went through the constructor, the
  reshaped object has the key \<^verbatim>\<open>role\<close>, and it has the key \<^verbatim>\<open>content\<close> or
  the key \<^verbatim>\<open>tool_calls\<close>. When the content is empty or absent and the tool calls are
  empty or absent, \<^verbatim>\<open>content\<close> is the empty string.
\<close>

theorem C1_reshaper_never_misses_content_and_tool_calls:
  "''role'' \<in> set (map fst (format_message_for_ollama m)) \<and>
   (''content'' \<in> set (map fst (format_message_for_ollama m)) \<or>
    ''tool_calls'' \<in> set (map fst (format_message_for_ollama m))) \<and>
   (\<not> truthy (content m) \<and> \<not> truthy (tool_calls m) \<longrightarrow>
      map_of (format_message_for_ollama m) ''content'' = Some (JStr ''''))"
proof (intro conjI impI)
  show "''role'' \<in> set (map fst (format_message_for_ollama m))"
    by (simp only: format_message_for_ollama_keys) simp
  show "''content'' \<in> set (map fst (format_message_for_ollama m)) \<or>
    ''tool_calls'' \<in> set (map fst (format_message_for_ollama m))"
    by (cases "truthy (content m)"; cases "truthy (tool_calls m)")
      (simp_all only: format_message_for_ollama_keys, simp_all)
next
  assume "\<not> truthy (content m) \<and> \<not> truthy (tool_calls m)"
  then show "map_of (format_message_for_ollama m) ''content'' = Some (JStr '''')"
    by (simp add: format_message_for_ollama_empty)
qed

text \<open>The message with neither field is reshaped to a role and an empty content.\<close>

theorem C1_reshaper_witness:
  "''role'' \<in> set (map fst (format_message_for_ollama msg_empty)) \<and>
   map_of (format_message_for_ollama msg_empty) ''content'' = Some (JStr '''')"
  using C1_reshaper_never_misses_content_and_tool_calls [of msg_empty]
  by (simp add: msg_empty_def truthy_def)

text \<open>
  Claim C4. For a message whose content is empty (absent or the empty string) and whose
  tool calls are a non-empty sequence, the reshaped object is exactly the role followed
  by \<^verbatim>\<open>tool_calls\<close>: there is no \<^verbatim>\<open>content\<close> key, and the tool calls are, in the
  order of the input, one object per input tool call whose only key is
  \<^verbatim>\<open>function\<close>, bound to the input's function mapping unchanged.
\<close>

theorem C4_tool_calls_without_content:
  assumes "content m = None \<or> content m = Some ''''"
    and "tool_calls m = Some tcs" and "tcs \<noteq> []"
  shows "format_message_for_ollama m =
    [(''role'', JStr (role m)),
     (''tool_calls'', JList (map (\<lambda>tc. JObj [(''function'', JObj (tc_function tc))]) tcs))]"
  using assms by (auto simp add: format_message_for_ollama_eq truthy_def)

theorem C4_tool_calls_witness:
  "format_message_for_ollama msg_tool =
    [(''role'', JStr ''assistant''),
     (''tool_calls'', JList [JObj [(''function'', JObj (tc_function call_calculator))]])]"
proof -
  have c: "content msg_tool = None \<or> content msg_tool = Some ''''"
    by (simp add: msg_tool_def)
  have t: "tool_calls msg_tool = Some [call_calculator]"
    by (simp add: msg_tool_def)
  have r: "role msg_tool = ''assistant''"
    by (simp add: msg_tool_def)
  show ?thesis
    using C4_tool_calls_without_content [OF c t] by (simp add: r)
qed

text \<open>
  Claim C8. A constructed message never has both \<^verbatim>\<open>content\<close> and
  \<^verbatim>\<open>tool_calls\<close> absent: if both were absent from the input, the content is the
  empty string. The constructor changes neither the role nor the tool calls.
\<close>

theorem C8_constructed_message_has_content_or_tool_calls:
  "(content (ChatMessage_init r c t) \<noteq> None \<or> tool_calls (ChatMessage_init r c t) \<noteq> None) \<and>
   (c = None \<and> t = None \<longrightarrow> content (ChatMessage_init r c t) = Some '''') \<and>
   role (ChatMessage_init r c t) = r \<and>
   tool_calls (ChatMessage_init r c t) = t"
  by (cases c; cases t) (simp_all add: ChatMessage_init_def truthy_def Let_def)

theorem C8_constructed_message_witness:
  "content (ChatMessage_init ''user'' None None) = Some ''''"
  using C8_constructed_message_has_content_or_tool_calls [of "''user''" None None]
  by simp

section \<open>Properties of the chat forwarder\<close>

lemma str_int_404: "str_int 404 = ''404''"
  by code_simp

lemma str_int_503: "str_int 503 = ''503''"
  by code_simp

lemma backend_returning_post: "http_post (backend_returning r) url body = Inr r"
  by (simp add: backend_returning_def)

lemma backend_raising_post: "http_post (backend_raising e) url body = Inl e"
  by (simp add: backend_raising_def)

lemma backend_returning_get: "http_get (backend_returning r) url = Inr r"
  by (simp add: backend_returning_def)


lemma ollama_messages_map:
  "ollama_messages ms acc = acc @ map (\<lambda>m. JObj (format_message_for_ollama m)) ms"
  by (induction ms arbitrary: acc) simp_all

text \<open>The backend request, written out as the concatenation of the entries it sets.\<close>

lemma ollama_request_eq:
  "ollama_request req =
     [(''model'', JStr (model req)),
      (''messages'', JList (map (\<lambda>m. JObj (format_message_for_ollama m)) (messages req))),
      (''stream'', JBool (case stream req of Some b \<Rightarrow> b | None \<Rightarrow> False))]
     @ (case options req of
          Some d \<Rightarrow> if d \<noteq> [] then [(''options'', JObj d)] else []
        | None \<Rightarrow> [])
     @ (case tools req of
          Some ts \<Rightarrow> if ts \<noteq> [] then [(''tools'', JList (map JObj ts))] else []
        | None \<Rightarrow> [])
     @ (case keep_alive req of
          Some k \<Rightarrow> if k \<noteq> [] then [(''keep_alive'', JStr k)] else []
        | None \<Rightarrow> [])"
  by (simp add: ollama_request_def ollama_messages_map Let_def split: option.splits)

lemma stream_response_filter:
  "stream_response ls = map (\<lambda>l. l @ [CHR 0x0A]) (filter (\<lambda>l. l \<noteq> []) ls)"
  by (induction ls) simp_all

text \<open>Whatever the backend does, the endpoint issues one POST, to the chat URL.\<close>

lemma chat_completion_log:
  "snd (chat_completion hc req log) =
     log @ [(OLLAMA_BASE_URL @ ''/api/chat'', JObj (ollama_request req))]"
  by (simp add: chat_completion_def chat_completion_try_def post_def
      split: sum.splits prod.splits)

text \<open>The four ways through the endpoint, by what the backend does.\<close>

lemma chat_completion_raised:
  "http_post hc (OLLAMA_BASE_URL @ ''/api/chat'') (JObj (ollama_request req)) = Inl e \<Longrightarrow>
   fst (chat_completion hc req log) = Inl (chat_completion_except e)"
  by (simp add: chat_completion_def chat_completion_try_def post_def)

lemma chat_completion_not_200:
  "http_post hc (OLLAMA_BASE_URL @ ''/api/chat'') (JObj (ollama_request req)) = Inr r \<Longrightarrow>
   status_code r \<noteq> 200 \<Longrightarrow>
   fst (chat_completion hc req log) =
     Inl (HTTPException 500
            (''Internal server error: '' @ str_int (status_code r)
             @ '': Ollama request failed: '' @ body_text r))"
  by (simp add: chat_completion_def chat_completion_try_def post_def
      chat_completion_except_def)

lemma chat_completion_streamed:
  "http_post hc (OLLAMA_BASE_URL @ ''/api/chat'') (JObj (ollama_request req)) = Inr r \<Longrightarrow>
   status_code r = 200 \<Longrightarrow> stream req = Some True \<Longrightarrow>
   fst (chat_completion hc req log) =
     Inr (StreamingResponse (stream_response (body_lines r)) ''application/x-ndjson'')"
  by (simp add: chat_completion_def chat_completion_try_def post_def)

lemma chat_completion_buffered:
  "http_post hc (OLLAMA_BASE_URL @ ''/api/chat'') (JObj (ollama_request req)) = Inr r \<Longrightarrow>
   status_code r = 200 \<Longrightarrow> stream req \<noteq> Some True \<Longrightarrow>
   fst (chat_completion hc req log) =
     (case body_json r of
        Inl e \<Rightarrow> Inl (chat_completion_except e)
      | Inr ollama_response \<Rightarrow> Inr (JSONBody ollama_response))"
  by (simp add: chat_completion_def chat_completion_try_def post_def split: sum.splits)

text \<open>
  Claim C3. The backend request has the keys \<^verbatim>\<open>model\<close>, \<^verbatim>\<open>messages\<close> and
  \<^verbatim>\<open>stream\<close>, in this order, followed by \<^verbatim>\<open>options\<close>, \<^verbatim>\<open>tools\<close> and
  \<^verbatim>\<open>keep_alive\<close>, each of them exactly when the field of the input is present and
  truthy, and no other key. The messages are the reshaped input messages in the same
  order. An optional key that is not included is absent from the request, not bound to
  null; one that is included is bound to the input's value. This request is the body of
  the POST the endpoint issues.
\<close>

theorem C3_backend_request_keys:
  "map fst (ollama_request req) =
     [''model'', ''messages'', ''stream'']
     @ (if truthy (options req) then [''options''] else [])
     @ (if truthy (tools req) then [''tools''] else [])
     @ (if truthy (keep_alive req) then [''keep_alive''] else []) \<and>
   map_of (ollama_request req) ''model'' = Some (JStr (model req)) \<and>
   map_of (ollama_request req) ''messages'' =
     Some (JList (map (\<lambda>m. JObj (format_message_for_ollama m)) (messages req))) \<and>
   map_of (ollama_request req) ''stream'' = Some (JBool (stream req = Some True)) \<and>
   map_of (ollama_request req) ''options'' =
     (if truthy (options req) then map_option JObj (options req) else None) \<and>
   map_of (ollama_request req) ''tools'' =
     (if truthy (tools req) then map_option (\<lambda>ts. JList (map JObj ts)) (tools req) else None) \<and>
   map_of (ollama_request req) ''keep_alive'' =
     (if truthy (keep_alive req) then map_option JStr (keep_alive req) else None) \<and>
   snd (chat_completion hc req log) =
     log @ [(OLLAMA_BASE_URL @ ''/api/chat'', JObj (ollama_request req))]"
proof (intro conjI)
  show "map fst (ollama_request req) =
     [''model'', ''messages'', ''stream'']
     @ (if truthy (options req) then [''options''] else [])
     @ (if truthy (tools req) then [''tools''] else [])
     @ (if truthy (keep_alive req) then [''keep_alive''] else [])"
    by (cases "options req"; cases "tools req"; cases "keep_alive req")
      (simp_all add: ollama_request_eq truthy_def)
  show "map_of (ollama_request req) ''model'' = Some (JStr (model req))"
    by (simp add: ollama_request_eq)
  show "map_of (ollama_request req) ''messages'' =
     Some (JList (map (\<lambda>m. JObj (format_message_for_ollama m)) (messages req)))"
    by (simp add: ollama_request_eq)
  show "map_of (ollama_request req) ''stream'' = Some (JBool (stream req = Some True))"
    by (cases "stream req") (simp_all add: ollama_request_eq)
  show "map_of (ollama_request req) ''options'' =
     (if truthy (options req) then map_option JObj (options req) else None)"
    by (cases "options req"; cases "tools req"; cases "keep_alive req")
      (simp_all add: ollama_request_eq truthy_def)
  show "map_of (ollama_request req) ''tools'' =
     (if truthy (tools req) then map_option (\<lambda>ts. JList (map JObj ts)) (tools req) else None)"
    by (cases "options req"; cases "tools req"; cases "keep_alive req")
      (simp_all add: ollama_request_eq truthy_def)
  show "map_of (ollama_request req) ''keep_alive'' =
     (if truthy (keep_alive req) then map_option JStr (keep_alive req) else None)"
    by (cases "options req"; cases "tools req"; cases "keep_alive req")
      (simp_all add: ollama_request_eq truthy_def)
  show "snd (chat_completion hc req log) =
     log @ [(OLLAMA_BASE_URL @ ''/api/chat'', JObj (ollama_request req))]"
    by (rule chat_completion_log)
qed

text \<open>
  Claim C10. When the \<^verbatim>\<open>stream\<close> field of the request is null, or absent and so
  defaulted to false, the backend request binds \<^verbatim>\<open>stream\<close> to the boolean false.
  For every request the key is bound to a boolean, so null is never forwarded, and this
  request is the body of the POST the endpoint issues.
\<close>

theorem C10_stream_is_never_null:
  "(stream req = None \<or> stream req = Some False \<longrightarrow>
      map_of (ollama_request req) ''stream'' = Some (JBool False)) \<and>
   (\<exists>b. map_of (ollama_request req) ''stream'' = Some (JBool b)) \<and>
   snd (chat_completion hc req log) =
     log @ [(OLLAMA_BASE_URL @ ''/api/chat'', JObj (ollama_request req))]"
  by (auto simp add: ollama_request_eq chat_completion_log)

theorem C10_stream_witness:
  "map_of (ollama_request request_plain) ''stream'' = Some (JBool False)"
proof -
  have "stream request_plain = None \<or> stream request_plain = Some False"
    by (simp add: request_plain_def)
  with C10_stream_is_never_null [of request_plain] show ?thesis
    by blast
qed

text \<open>
  Claim C2 says that a backend answer with a status other than 2xx reaches the caller
  as an error with the backend's own status code. The endpoint raises that error inside
  its \<^verbatim>\<open>try\<close>, where the clause \<^verbatim>\<open>except Exception\<close> catches it, since an
  \<^verbatim>\<open>HTTPException\<close> is an \<^verbatim>\<open>Exception\<close>, and replaces it by a 500
  (\<open>chat_completion_not_200\<close> above, for every status other than 200). Here the backend
  answers 404 with the body \<^verbatim>\<open>model not found\<close>, and the caller receives 500.
  \<^verbatim>\<open>get_model_info\<close> has the clause \<^verbatim>\<open>except HTTPException: raise\<close> that this
  endpoint lacks.
\<close>

theorem C2_backend_status_is_replaced_by_500:
  "fst (chat_completion (backend_returning response_not_found) request_plain []) =
     Inl (HTTPException 500
            ''Internal server error: 404: Ollama request failed: model not found'')"
proof -
  have "status_code response_not_found \<noteq> 200"
    by (simp add: response_not_found_def)
  from chat_completion_not_200 [OF backend_returning_post this]
  show ?thesis
    by (simp add: response_not_found_def str_int_404)
qed

text \<open>
  Claim C5, as amended. For a request with the stream flag true whose backend call
  answers 200, the relay yields the lines the backend emitted that are not empty, each
  unchanged and followed by a newline, in the order of arrival; nothing is merged,
  split or reordered. Empty lines are not forwarded.
\<close>

theorem C5_relay_forwards_the_non_empty_lines:
  assumes "http_post hc (OLLAMA_BASE_URL @ ''/api/chat'') (JObj (ollama_request req)) = Inr r"
    and "status_code r = 200" and "stream req = Some True"
  shows "fst (chat_completion hc req log) =
     Inr (StreamingResponse
            (map (\<lambda>l. l @ [CHR 0x0A]) (filter (\<lambda>l. l \<noteq> []) (body_lines r)))
            ''application/x-ndjson'')"
  using chat_completion_streamed [OF assms] by (simp add: stream_response_filter)

theorem C5_relay_witness:
  "fst (chat_completion (backend_returning response_lines) request_stream []) =
     Inr (StreamingResponse [''{}'' @ [CHR 0x0A], ''[]'' @ [CHR 0x0A]] ''application/x-ndjson'')"
proof -
  have s: "status_code response_lines = 200"
    by (simp add: response_lines_def)
  have t: "stream request_stream = Some True"
    by (simp add: request_stream_def)
  show ?thesis
    using C5_relay_forwards_the_non_empty_lines [OF backend_returning_post s t, of "[]"]
    by (simp add: response_lines_def)
qed

text \<open>
  Claim C5 as it is written, that every line is forwarded and none is dropped, fails
  where the backend emits an empty line: of the three lines of \<open>response_lines\<close> the
  caller receives two, because \<^verbatim>\<open>stream_response\<close> yields a chunk only
  \<^verbatim>\<open>if chunk\<close>.
\<close>

theorem C5_empty_line_is_dropped:
  "body_lines response_lines = [''{}'', '''', ''[]''] \<and>
   fst (chat_completion (backend_returning response_lines) request_stream []) =
     Inr (StreamingResponse [''{}'' @ [CHR 0x0A], ''[]'' @ [CHR 0x0A]] ''application/x-ndjson'') \<and>
   fst (chat_completion (backend_returning response_lines) request_stream []) \<noteq>
     Inr (StreamingResponse [''{}'' @ [CHR 0x0A], '''' @ [CHR 0x0A], ''[]'' @ [CHR 0x0A]]
            ''application/x-ndjson'')"
proof -
  have s: "status_code response_lines = 200"
    by (simp add: response_lines_def)
  have t: "stream request_stream = Some True"
    by (simp add: request_stream_def)
  show ?thesis
    using chat_completion_streamed [OF backend_returning_post s t, of "[]"]
    by (simp add: response_lines_def)
qed

text \<open>
  Claim C6. When the backend call times out the caller receives a 504; when it fails
  with another request error, such as a refused connection, a 503; when anything else
  raises, be it the call or the parsing of a 200 body that is not JSON, a 500 whose
  detail wraps the text of the cause. Every exception of the backend call reaches the
  caller as one of these three errors, so none is swallowed, and whatever happens the
  endpoint has issued exactly one POST, so nothing is retried.
\<close>

theorem C6_failures_are_reported_and_not_retried:
  "(http_post hc (OLLAMA_BASE_URL @ ''/api/chat'') (JObj (ollama_request req))
      = Inl (TimeoutException s) \<longrightarrow>
    fst (chat_completion hc req log) =
      Inl (HTTPException 504 ''Request timeout - the model is taking too long to respond'')) \<and>
   (http_post hc (OLLAMA_BASE_URL @ ''/api/chat'') (JObj (ollama_request req))
      = Inl (RequestError s) \<longrightarrow>
    fst (chat_completion hc req log) =
      Inl (HTTPException 503 ''Unable to connect to Ollama service'')) \<and>
   (http_post hc (OLLAMA_BASE_URL @ ''/api/chat'') (JObj (ollama_request req))
      = Inl (Exception s) \<longrightarrow>
    fst (chat_completion hc req log) =
      Inl (HTTPException 500 (''Internal server error: '' @ s))) \<and>
   (http_post hc (OLLAMA_BASE_URL @ ''/api/chat'') (JObj (ollama_request req)) = Inr r \<and>
    status_code r = 200 \<and> stream req \<noteq> Some True \<and> body_json r = Inl (Exception s) \<longrightarrow>
    fst (chat_completion hc req log) =
      Inl (HTTPException 500 (''Internal server error: '' @ s))) \<and>
   (http_post hc (OLLAMA_BASE_URL @ ''/api/chat'') (JObj (ollama_request req)) = Inl e \<longrightarrow>
    (\<exists>code detail. fst (chat_completion hc req log) = Inl (HTTPException code detail) \<and>
       code \<in> {504, 503, 500})) \<and>
   snd (chat_completion hc req log) =
     log @ [(OLLAMA_BASE_URL @ ''/api/chat'', JObj (ollama_request req))]"
proof (intro conjI impI)
  assume "http_post hc (OLLAMA_BASE_URL @ ''/api/chat'') (JObj (ollama_request req))
      = Inl (TimeoutException s)"
  from chat_completion_raised [OF this]
  show "fst (chat_completion hc req log) =
      Inl (HTTPException 504 ''Request timeout - the model is taking too long to respond'')"
    by (simp add: chat_completion_except_def)
next
  assume "http_post hc (OLLAMA_BASE_URL @ ''/api/chat'') (JObj (ollama_request req))
      = Inl (RequestError s)"
  from chat_completion_raised [OF this]
  show "fst (chat_completion hc req log) =
      Inl (HTTPException 503 ''Unable to connect to Ollama service'')"
    by (simp add: chat_completion_except_def)
next
  assume "http_post hc (OLLAMA_BASE_URL @ ''/api/chat'') (JObj (ollama_request req))
      = Inl (Exception s)"
  from chat_completion_raised [OF this]
  show "fst (chat_completion hc req log) =
      Inl (HTTPException 500 (''Internal server error: '' @ s))"
    by (simp add: chat_completion_except_def)
next
  assume a: "http_post hc (OLLAMA_BASE_URL @ ''/api/chat'') (JObj (ollama_request req)) = Inr r \<and>
    status_code r = 200 \<and> stream req \<noteq> Some True \<and> body_json r = Inl (Exception s)"
  then have "fst (chat_completion hc req log) =
     (case body_json r of
        Inl e \<Rightarrow> Inl (chat_completion_except e)
      | Inr ollama_response \<Rightarrow> Inr (JSONBody ollama_response))"
    by (intro chat_completion_buffered) simp_all
  with a show "fst (chat_completion hc req log) =
      Inl (HTTPException 500 (''Internal server error: '' @ s))"
    by (simp add: chat_completion_except_def)
next
  assume "http_post hc (OLLAMA_BASE_URL @ ''/api/chat'') (JObj (ollama_request req)) = Inl e"
  from chat_completion_raised [OF this]
  show "\<exists>code detail. fst (chat_completion hc req log) = Inl (HTTPException code detail) \<and>
       code \<in> {504, 503, 500}"
    by (simp add: chat_completion_except_def)
next
  show "snd (chat_completion hc req log) =
     log @ [(OLLAMA_BASE_URL @ ''/api/chat'', JObj (ollama_request req))]"
    by (rule chat_completion_log)
qed

theorem C6_failures_witness:
  "fst (chat_completion (backend_raising (TimeoutException ''timed out'')) request_plain []) =
     Inl (HTTPException 504 ''Request timeout - the model is taking too long to respond'') \<and>
   fst (chat_completion (backend_raising (RequestError ''connection refused'')) request_plain []) =
     Inl (HTTPException 503 ''Unable to connect to Ollama service'') \<and>
   fst (chat_completion (backend_raising (Exception ''boom'')) request_plain []) =
     Inl (HTTPException 500 ''Internal server error: boom'') \<and>
   fst (chat_completion (backend_returning response_not_json) request_plain []) =
     Inl (HTTPException 500 ''Internal server error: Expecting value'')"
proof (intro conjI)
  show "fst (chat_completion (backend_raising (TimeoutException ''timed out'')) request_plain []) =
     Inl (HTTPException 504 ''Request timeout - the model is taking too long to respond'')"
    using C6_failures_are_reported_and_not_retried
      [of "backend_raising (TimeoutException ''timed out'')" request_plain "''timed out''" "[]"]
    by (simp add: backend_raising_post)
  show "fst (chat_completion (backend_raising (RequestError ''connection refused'')) request_plain []) =
     Inl (HTTPException 503 ''Unable to connect to Ollama service'')"
    using C6_failures_are_reported_and_not_retried
      [of "backend_raising (RequestError ''connection refused'')" request_plain
        "''connection refused''" "[]"]
    by (simp add: backend_raising_post)
  show "fst (chat_completion (backend_raising (Exception ''boom'')) request_plain []) =
     Inl (HTTPException 500 ''Internal server error: boom'')"
    using C6_failures_are_reported_and_not_retried
      [of "backend_raising (Exception ''boom'')" request_plain "''boom''" "[]"]
    by (simp add: backend_raising_post)
  show "fst (chat_completion (backend_returning response_not_json) request_plain []) =
     Inl (HTTPException 500 ''Internal server error: Expecting value'')"
    using C6_failures_are_reported_and_not_retried
      [of "backend_returning response_not_json" request_plain "''Expecting value''" "[]"
        response_not_json]
    by (simp add: backend_returning_post response_not_json_def request_plain_def)
qed

section \<open>Properties of the health checker\<close>





lemma health_check_healthy:
  "check_ollama_health hc = Inr [(''status'', JStr ''healthy''), (''models'', JList ms)] \<Longrightarrow>
   health_check coerce now hc =
     (case validate_str_list coerce ms of
        Some names \<Rightarrow>
          Inr \<lparr>status = ''healthy'', timestamp = now, ollama_status = ''healthy'',
               available_models = names\<rparr>
      | None \<Rightarrow> Inl (Exception ''ValidationError''))"
  by (simp add: health_check_def dict_getitem_def HealthResponse_init_def validate_str_def
      split: option.splits)

text \<open>A backend that serves one model is reported healthy, with the model's name.\<close>

lemma health_check_one_model:
  "health_check strict ''2026-11-04T09:40:00'' (backend_returning response_tags) =
     Inr \<lparr>status = ''healthy'', timestamp = ''2026-11-04T09:40:00'',
          ollama_status = ''healthy'', available_models = [''llama3.1:8b'']\<rparr>"
proof -
  have "check_ollama_health (backend_returning response_tags) =
      Inr [(''status'', JStr ''healthy''), (''models'', JList [JStr ''llama3.1:8b''])]"
    by (simp add: check_ollama_health_def check_ollama_health_try_def backend_returning_get
        response_tags_def dict_getitem_def)
  from health_check_healthy [OF this] show ?thesis
    by (simp add: validate_str_def)
qed




section \<open>Properties of the model information endpoint\<close>

text \<open>
  Claim C9. When the backend answers the model detail request with 404,
  \<^verbatim>\<open>get_model_info\<close> fails with a 404 whose detail is
  \<^verbatim>\<open>Model '<name>' not found\<close> for the name asked for. When the backend answers
  with any other status than 200, it fails with a 500.
\<close>

theorem C9_model_not_found_and_other_failures:
  "(http_post hc (OLLAMA_BASE_URL @ ''/api/show'') (JObj [(''name'', JStr model_name)]) = Inr r \<and>
    status_code r = 404 \<longrightarrow>
    get_model_info hc model_name =
      Inl (HTTPException 404 (''Model '' @ [CHR 0x27] @ model_name @ [CHR 0x27] @ '' not found''))) \<and>
   (http_post hc (OLLAMA_BASE_URL @ ''/api/show'') (JObj [(''name'', JStr model_name)]) = Inr r \<and>
    status_code r \<noteq> 200 \<and> status_code r \<noteq> 404 \<longrightarrow>
    get_model_info hc model_name =
      Inl (HTTPException 500 (''Failed to get model info: '' @ str_int (status_code r))))"
  by (simp add: get_model_info_def get_model_info_try_def)

theorem C9_model_info_witness:
  "get_model_info (backend_returning response_not_found) ''foo'' =
     Inl (HTTPException 404 (''Model '' @ [CHR 0x27] @ ''foo'' @ [CHR 0x27] @ '' not found'')) \<and>
   get_model_info (backend_returning response_unavailable) ''foo'' =
     Inl (HTTPException 500 ''Failed to get model info: 503'')"
  using C9_model_not_found_and_other_failures
    [of "backend_returning response_not_found" "''foo''" response_not_found]
    C9_model_not_found_and_other_failures
    [of "backend_returning response_unavailable" "''foo''" response_unavailable]
  by (simp add: backend_returning_post response_not_found_def response_unavailable_def
      str_int_503)

end
